theory Spec2Isabelle
  imports Complex_Main
begin

section \<open>Numbers\<close>

text \<open>
  The backtester computes on pandas columns of dtype float64 and on Python numbers.
  A float64 is modelled by \<open>fl\<close>: a finite value, the two infinities, or NaN. The
  special values are kept because the control flow of the program depends on them:
  \<open>dropna\<close> removes rows holding NaN, and numpy's division by zero returns an infinity
  or NaN where Python's raises. The sign of a zero is not tracked: a non-zero value
  divided by zero is an infinity whose sign is taken from the dividend.

  The operations \<open>fl_add\<close>, \<open>fl_sub\<close>, \<open>fl_mul\<close> and \<open>fl_div\<close> compute the exact result
  on finite values. The result that the machine stores is the exact result rounded to
  float64 (\<open>f64_round\<close> below). The indicator columns and the decisions are stated on
  the exact operations: they depend on which values are NaN and on the sign of
  differences. Where the rounding decides what is true (the threshold of the stop-loss,
  the profit of a sale) the rounded operations are used.
\<close>

datatype fl = Fin real | PInf | NInf | NaN

fun fl_neg :: "fl \<Rightarrow> fl" where
  "fl_neg (Fin x) = Fin (- x)"
| "fl_neg PInf = NInf"
| "fl_neg NInf = PInf"
| "fl_neg NaN = NaN"

fun fl_add :: "fl \<Rightarrow> fl \<Rightarrow> fl" where
  "fl_add (Fin x) (Fin y) = Fin (x + y)"
| "fl_add (Fin x) PInf = PInf"
| "fl_add (Fin x) NInf = NInf"
| "fl_add PInf (Fin y) = PInf"
| "fl_add PInf PInf = PInf"
| "fl_add PInf NInf = NaN"
| "fl_add NInf (Fin y) = NInf"
| "fl_add NInf PInf = NaN"
| "fl_add NInf NInf = NInf"
| "fl_add NaN b = NaN"
| "fl_add a NaN = NaN"

definition fl_sub :: "fl \<Rightarrow> fl \<Rightarrow> fl" where
  "fl_sub a b = fl_add a (fl_neg b)"

fun fl_is_neg :: "fl \<Rightarrow> bool" where
  "fl_is_neg (Fin x) = (x < 0)"
| "fl_is_neg PInf = False"
| "fl_is_neg NInf = True"
| "fl_is_neg NaN = False"

definition signed_inf :: "bool \<Rightarrow> fl" where
  "signed_inf negative = (if negative then NInf else PInf)"

fun fl_mul :: "fl \<Rightarrow> fl \<Rightarrow> fl" where
  "fl_mul NaN b = NaN"
| "fl_mul a NaN = NaN"
| "fl_mul (Fin x) (Fin y) = Fin (x * y)"
| "fl_mul a b =
     (if a = Fin 0 \<or> b = Fin 0 then NaN else signed_inf (fl_is_neg a \<noteq> fl_is_neg b))"

fun fl_div :: "fl \<Rightarrow> fl \<Rightarrow> fl" where
  "fl_div NaN b = NaN"
| "fl_div a NaN = NaN"
| "fl_div (Fin x) (Fin y) =
     (if y \<noteq> 0 then Fin (x / y) else if x = 0 then NaN else signed_inf (x < 0))"
| "fl_div (Fin x) b = Fin 0"
| "fl_div a (Fin y) = signed_inf (fl_is_neg a \<noteq> (y < 0))"
| "fl_div a b = NaN"

fun fl_lt :: "fl \<Rightarrow> fl \<Rightarrow> bool" where
  "fl_lt (Fin x) (Fin y) = (x < y)"
| "fl_lt (Fin x) PInf = True"
| "fl_lt NInf (Fin y) = True"
| "fl_lt NInf PInf = True"
| "fl_lt a b = False"

definition fl_gt :: "fl \<Rightarrow> fl \<Rightarrow> bool" where
  "fl_gt a b = fl_lt b a"

definition isna :: "fl \<Rightarrow> bool" where
  "isna x = (x = NaN)"

fun is_finite :: "fl \<Rightarrow> bool" where
  "is_finite (Fin x) = True"
| "is_finite a = False"

fun fin_val :: "fl \<Rightarrow> real" where
  "fin_val (Fin x) = x"
| "fin_val a = 0"

text \<open>
  Rounding to float64: to the nearest value with a significand of 53 bits, a tie going
  to the even significand; below \<open>2 ^ (- 1022)\<close> the spacing stays \<open>2 ^ (- 1074)\<close>, and a
  result of \<open>2 ^ 1024\<close> or more is an infinity. \<open>f64_exponent\<close> finds \<open>e\<close> with
  \<open>2 ^ e \<le> x < 2 ^ (e + 1)\<close>, halving or doubling at most the given number of times.
\<close>

fun f64_exponent :: "nat \<Rightarrow> real \<Rightarrow> int \<Rightarrow> int" where
  "f64_exponent 0 x e = e"
| "f64_exponent (Suc n) x e =
     (if 2 \<le> x then f64_exponent n (x / 2) (e + 1)
      else if x < 1 then f64_exponent n (2 * x) (e - 1)
      else e)"

definition two_powi :: "int \<Rightarrow> real" where
  "two_powi e = (if 0 \<le> e then 2 ^ nat e else 1 / 2 ^ nat (- e))"

definition round_half_even :: "real \<Rightarrow> int" where
  "round_half_even y =
     (let f = \<lfloor>y\<rfloor>; d = y - of_int f
      in if d < 1 / 2 then f else if 1 / 2 < d then f + 1
         else if even f then f else f + 1)"

definition f64_round :: "real \<Rightarrow> fl" where
  "f64_round x =
     (if x = 0 then Fin 0
      else let e = max (f64_exponent 2200 \<bar>x\<bar> 0) (- 1022);
               ulp = two_powi (e - 52);
               m = round_half_even (\<bar>x\<bar> / ulp)
           in if 1024 \<le> e \<or> (e = 1023 \<and> 2 ^ 53 \<le> m) then signed_inf (x < 0)
              else Fin (if x < 0 then - (of_int m * ulp) else of_int m * ulp))"

text \<open>An operation followed by the rounding \<open>rnd\<close> of its finite result.\<close>

fun apply_rnd :: "(real \<Rightarrow> fl) \<Rightarrow> fl \<Rightarrow> fl" where
  "apply_rnd rnd (Fin x) = rnd x"
| "apply_rnd rnd a = a"

definition f64_mul :: "fl \<Rightarrow> fl \<Rightarrow> fl" where
  "f64_mul a b = apply_rnd f64_round (fl_mul a b)"

definition f64_sub :: "fl \<Rightarrow> fl \<Rightarrow> fl" where
  "f64_sub a b = apply_rnd f64_round (fl_sub a b)"

text \<open>
  A variable of \<open>run_backtest\<close> holds either a Python number (the caller's
  \<open>initial_capital\<close>, the literal \<open>0\<close>) or a numpy float64 (anything computed from a
  bar). An operation with a float64 operand is numpy's and never raises; Python's own
  true division raises \<open>ZeroDivisionError\<close> on a zero divisor.
\<close>

datatype number = PyNum real | NpFloat fl

datatype error = ZeroDivisionError | IndexError

fun to_fl :: "number \<Rightarrow> fl" where
  "to_fl (PyNum r) = Fin r"
| "to_fl (NpFloat x) = x"

fun num_add :: "number \<Rightarrow> number \<Rightarrow> number" where
  "num_add (PyNum x) (PyNum y) = PyNum (x + y)"
| "num_add a b = NpFloat (fl_add (to_fl a) (to_fl b))"

fun num_sub :: "number \<Rightarrow> number \<Rightarrow> number" where
  "num_sub (PyNum x) (PyNum y) = PyNum (x - y)"
| "num_sub a b = NpFloat (fl_sub (to_fl a) (to_fl b))"

fun num_mul :: "number \<Rightarrow> number \<Rightarrow> number" where
  "num_mul (PyNum x) (PyNum y) = PyNum (x * y)"
| "num_mul a b = NpFloat (fl_mul (to_fl a) (to_fl b))"

fun num_truediv :: "number \<Rightarrow> number \<Rightarrow> error + number" where
  "num_truediv (PyNum x) (PyNum y) =
     (if y = 0 then Inl ZeroDivisionError else Inr (PyNum (x / y)))"
| "num_truediv a b = Inr (NpFloat (fl_div (to_fl a) (to_fl b)))"

section \<open>Strategy functions\<close>

text \<open>\<open>logic.py\<close>, version 1: \<open>buy\<close> and \<open>sell\<close>.\<close>

definition buy :: "fl \<Rightarrow> fl \<Rightarrow> fl \<Rightarrow> fl \<Rightarrow> fl \<Rightarrow> bool" where
  "buy rsi_prev rsi_now rsi_ma' current_price prev_price =
     (let delta_rsi = fl_sub rsi_now rsi_prev;
          delta_price = fl_sub current_price prev_price
      in if fl_gt rsi_now rsi_ma' \<and> fl_gt delta_price (Fin 0) then True else False)"

definition sell :: "fl \<Rightarrow> fl \<Rightarrow> fl \<Rightarrow> fl \<Rightarrow> fl \<Rightarrow> bool" where
  "sell rsi_prev rsi_now rsi_ma' current_price prev_price =
     (let delta_rsi = fl_sub rsi_now rsi_prev;
          delta_price = fl_sub current_price prev_price
      in if fl_lt rsi_now rsi_ma' \<and> fl_lt delta_price (Fin 0) then True else False)"

text \<open>\<open>logic_stop_loss.py\<close>: \<open>check_for_buy\<close> and \<open>check_for_sell\<close>.\<close>

definition check_for_buy :: "fl \<Rightarrow> fl \<Rightarrow> fl \<Rightarrow> fl \<Rightarrow> bool \<Rightarrow> bool" where
  "check_for_buy rsi_now rsi_ma' current_price prev_price is_invested =
     (let delta_price = fl_sub current_price prev_price
      in if fl_gt rsi_now rsi_ma' \<and> fl_gt delta_price (Fin 0) \<and> \<not> is_invested
         then True else False)"

text \<open>The product on line 44 is rounded, and \<open>0.99\<close> is the float64 nearest to 99/100.\<close>

definition check_for_sell :: "fl \<Rightarrow> fl \<Rightarrow> fl \<Rightarrow> fl \<Rightarrow> bool \<Rightarrow> bool" where
  "check_for_sell rsi_now rsi_ma' current_price purchase_price is_invested =
     (if \<not> is_invested then False
      else let stop_loss_price = f64_mul purchase_price (f64_round (99 / 100));
               take_profit_condition = fl_lt rsi_now rsi_ma'
           in if fl_lt current_price stop_loss_price \<or> take_profit_condition
              then True else False)"



section \<open>Indicators\<close>

text \<open>
  \<open>Series.diff()\<close>: the first entry is NaN, every other entry is the value minus its
  predecessor.
\<close>

fun diff_from :: "fl \<Rightarrow> fl list \<Rightarrow> fl list" where
  "diff_from p [] = []"
| "diff_from p (x # xs) = fl_sub x p # diff_from x xs"

fun diff :: "fl list \<Rightarrow> fl list" where
  "diff [] = []"
| "diff (x # xs) = NaN # diff_from x xs"

text \<open>
  \<open>Series.where(cond, 0)\<close> keeps an entry where the condition holds and puts 0
  elsewhere; a comparison with NaN is false.
\<close>

definition where_gt0 :: "fl list \<Rightarrow> fl list" where
  "where_gt0 xs = map (\<lambda>d. if fl_gt d (Fin 0) then d else Fin 0) xs"

definition where_lt0 :: "fl list \<Rightarrow> fl list" where
  "where_lt0 xs = map (\<lambda>d. if fl_lt d (Fin 0) then d else Fin 0) xs"

text \<open>
  \<open>Series.rolling(window=w).mean()\<close> with the default \<open>min_periods = w\<close>: entry \<open>i\<close> is
  the mean of the \<open>w\<close> entries ending at \<open>i\<close>, and NaN when fewer than \<open>w\<close> entries end
  at \<open>i\<close> or one of them is missing. pandas counts an infinite entry as missing.
\<close>

definition window_mean :: "fl list \<Rightarrow> fl" where
  "window_mean ys =
     (if ys \<noteq> [] \<and> list_all is_finite ys
      then Fin (sum_list (map fin_val ys) / real (length ys)) else NaN)"

definition rolling_mean :: "nat \<Rightarrow> fl list \<Rightarrow> fl list" where
  "rolling_mean w xs =
     map (\<lambda>i. if Suc i < w then NaN else window_mean (take w (drop (Suc i - w) xs)))
       [0..<length xs]"

definition avg_gain :: "fl list \<Rightarrow> nat \<Rightarrow> fl list" where
  "avg_gain prices window = rolling_mean window (where_gt0 (diff prices))"

definition avg_loss :: "fl list \<Rightarrow> nat \<Rightarrow> fl list" where
  "avg_loss prices window = rolling_mean window (map fl_neg (where_lt0 (diff prices)))"

definition rsi_of_rs :: "fl \<Rightarrow> fl" where
  "rsi_of_rs rs = fl_sub (Fin 100) (fl_div (Fin 100) (fl_add (Fin 1) rs))"

definition calculate_rsi :: "fl list \<Rightarrow> nat \<Rightarrow> fl list" where
  "calculate_rsi prices window =
     (let gain = avg_gain prices window;
          loss = avg_loss prices window;
          rs = map2 fl_div gain loss
      in map rsi_of_rs rs)"

section \<open>The backtest\<close>

text \<open>The two windows that \<open>__init__\<close> sets on \<open>self\<close>.\<close>

record backtester =
  rsi_window :: nat
  ma_window :: nat

definition Backtester_init :: backtester where
  "Backtester_init = \<lparr>rsi_window = 14, ma_window = 14\<rparr>"

text \<open>
  A row of the fetched frame: the timestamp is its index, the other fields are its
  float64 columns. A \<open>frame\<close> is a row after lines 57 and 58 added the two indicators.
\<close>

record bar =
  timestamp :: int
  bar_open :: fl
  high :: fl
  low :: fl
  close :: fl
  volume :: fl

record frame = bar +
  rsi :: fl
  rsi_ma :: fl

datatype action = BUY | SELL

text \<open>
  A dict appended to \<open>trades\<close>. The keys \<open>timestamp\<close>, \<open>action\<close>, \<open>value\<close>, \<open>rsi\<close> and
  \<open>rsi_ma\<close> carry the prefix \<open>tr_\<close> here; a key that the dict does not have is \<open>None\<close>.
\<close>

record trade =
  tr_timestamp :: int
  tr_action :: action
  price :: fl
  amount :: number
  tr_value :: number
  tr_rsi :: fl
  tr_rsi_ma :: fl
  delta_rsi :: fl
  delta_price :: fl
  profit :: "fl option"
  profit_pct :: "fl option"

record sim_state =
  cash :: number
  position :: number
  position_value :: number
  in_position :: bool
  trades :: "trade list"

datatype outcome = NoData | Completed "trade list" number

text \<open>Lines 57 and 58: the two indicator columns are added to the bars.\<close>

definition add_frame :: "bar \<Rightarrow> fl \<times> fl \<Rightarrow> frame" where
  "add_frame b ind = bar.extend b \<lparr>rsi = fst ind, rsi_ma = snd ind\<rparr>"

definition add_indicators :: "backtester \<Rightarrow> bar list \<Rightarrow> frame list" where
  "add_indicators self bars =
     (let rsi_col = calculate_rsi (map close bars) (rsi_window self);
          rsi_ma_col = rolling_mean (ma_window self) rsi_col
      in map2 add_frame bars (zip rsi_col rsi_ma_col))"

text \<open>\<open>DataFrame.dropna()\<close> removes every row with NaN in one of its columns.\<close>

definition row_has_na :: "frame \<Rightarrow> bool" where
  "row_has_na r =
     (isna (bar_open r) \<or> isna (high r) \<or> isna (low r) \<or> isna (close r) \<or> isna (volume r)
      \<or> isna (rsi r) \<or> isna (rsi_ma r))"

definition dropna :: "frame list \<Rightarrow> frame list" where
  "dropna rows = filter (\<lambda>r. \<not> row_has_na r) rows"

definition init_state :: "real \<Rightarrow> sim_state" where
  "init_state initial_capital =
     \<lparr>cash = PyNum initial_capital, position = PyNum 0, position_value = PyNum 0,
      in_position = False, trades = []\<rparr>"

text \<open>The body of the loop (lines 75 to 143), for one pair of consecutive rows.\<close>

definition bar_step :: "frame \<Rightarrow> frame \<Rightarrow> sim_state \<Rightarrow> sim_state" where
  "bar_step prev_bar current_bar s =
     (let rsi_now = rsi current_bar;
          rsi_prev = rsi prev_bar;
          rsi_ma_now = rsi_ma current_bar;
          current_price = close current_bar;
          prev_price = close prev_bar;
          ts = timestamp current_bar;
          d_rsi = fl_sub rsi_now rsi_prev;
          d_price = fl_sub current_price prev_price
      in if \<not> in_position s \<and> buy rsi_prev rsi_now rsi_ma_now current_price prev_price then
           (let position' = NpFloat (fl_div (to_fl (cash s)) current_price);
                position_value' = cash s;
                t = \<lparr>tr_timestamp = ts, tr_action = BUY, price = current_price,
                     amount = position', tr_value = cash s, tr_rsi = rsi_now,
                     tr_rsi_ma = rsi_ma_now, delta_rsi = d_rsi, delta_price = d_price,
                     profit = None, profit_pct = None\<rparr>
            in \<lparr>cash = PyNum 0, position = position', position_value = position_value',
                in_position = True, trades = trades s @ [t]\<rparr>)
         else if in_position s \<and> sell rsi_prev rsi_now rsi_ma_now current_price prev_price then
           (let cash' = fl_mul (to_fl (position s)) current_price;
                profit' = fl_sub cash' (to_fl (position_value s));
                profit_pct' = fl_mul (fl_div profit' (to_fl (position_value s))) (Fin 100);
                t = \<lparr>tr_timestamp = ts, tr_action = SELL, price = current_price,
                     amount = position s, tr_value = NpFloat cash', tr_rsi = rsi_now,
                     tr_rsi_ma = rsi_ma_now, delta_rsi = d_rsi, delta_price = d_price,
                     profit = Some profit', profit_pct = Some profit_pct'\<rparr>
            in \<lparr>cash = NpFloat cash', position = PyNum 0, position_value = PyNum 0,
                in_position = False, trades = trades s @ [t]\<rparr>)
         else s)"

text \<open>
  \<open>for i in range(1, len(bars))\<close>: the loop visits the indices in the order given, with
  \<open>bars.iloc[i]\<close> as the current and \<open>bars.iloc[i-1]\<close> as the previous row.
\<close>

fun sim_loop :: "frame list \<Rightarrow> nat list \<Rightarrow> sim_state \<Rightarrow> sim_state" where
  "sim_loop bars [] s = s"
| "sim_loop bars (i # is) s = sim_loop bars is (bar_step (bars ! (i - 1)) (bars ! i) s)"

definition simulate :: "real \<Rightarrow> frame list \<Rightarrow> sim_state" where
  "simulate initial_capital bars =
     sim_loop bars [1..<length bars] (init_state initial_capital)"

text \<open>
  The body of the loop and the loop with every arithmetic result rounded by \<open>rnd\<close>; with
  \<open>Fin\<close> for \<open>rnd\<close> nothing is rounded, with \<open>f64_round\<close> the results are those of float64.
  \<open>buy\<close> and \<open>sell\<close> compare the sign of a difference, which rounding a difference of
  two float64 values does not change.
\<close>

definition bar_step_rnd :: "(real \<Rightarrow> fl) \<Rightarrow> frame \<Rightarrow> frame \<Rightarrow> sim_state \<Rightarrow> sim_state" where
  "bar_step_rnd rnd prev_bar current_bar s =
     (let rsi_now = rsi current_bar;
          rsi_prev = rsi prev_bar;
          rsi_ma_now = rsi_ma current_bar;
          current_price = close current_bar;
          prev_price = close prev_bar;
          ts = timestamp current_bar;
          d_rsi = apply_rnd rnd (fl_sub rsi_now rsi_prev);
          d_price = apply_rnd rnd (fl_sub current_price prev_price)
      in if \<not> in_position s \<and> buy rsi_prev rsi_now rsi_ma_now current_price prev_price then
           (let position' = NpFloat (apply_rnd rnd (fl_div (to_fl (cash s)) current_price));
                position_value' = cash s;
                t = \<lparr>tr_timestamp = ts, tr_action = BUY, price = current_price,
                     amount = position', tr_value = cash s, tr_rsi = rsi_now,
                     tr_rsi_ma = rsi_ma_now, delta_rsi = d_rsi, delta_price = d_price,
                     profit = None, profit_pct = None\<rparr>
            in \<lparr>cash = PyNum 0, position = position', position_value = position_value',
                in_position = True, trades = trades s @ [t]\<rparr>)
         else if in_position s \<and> sell rsi_prev rsi_now rsi_ma_now current_price prev_price then
           (let cash' = apply_rnd rnd (fl_mul (to_fl (position s)) current_price);
                profit' = apply_rnd rnd (fl_sub cash' (to_fl (position_value s)));
                profit_pct' = apply_rnd rnd (fl_mul
                   (apply_rnd rnd (fl_div profit' (to_fl (position_value s)))) (Fin 100));
                t = \<lparr>tr_timestamp = ts, tr_action = SELL, price = current_price,
                     amount = position s, tr_value = NpFloat cash', tr_rsi = rsi_now,
                     tr_rsi_ma = rsi_ma_now, delta_rsi = d_rsi, delta_price = d_price,
                     profit = Some profit', profit_pct = Some profit_pct'\<rparr>
            in \<lparr>cash = NpFloat cash', position = PyNum 0, position_value = PyNum 0,
                in_position = False, trades = trades s @ [t]\<rparr>)
         else s)"

fun sim_loop_rnd :: "(real \<Rightarrow> fl) \<Rightarrow> frame list \<Rightarrow> nat list \<Rightarrow> sim_state \<Rightarrow> sim_state" where
  "sim_loop_rnd rnd bars [] s = s"
| "sim_loop_rnd rnd bars (i # is) s =
     sim_loop_rnd rnd bars is (bar_step_rnd rnd (bars ! (i - 1)) (bars ! i) s)"

definition simulate_rnd :: "(real \<Rightarrow> fl) \<Rightarrow> real \<Rightarrow> frame list \<Rightarrow> sim_state" where
  "simulate_rnd rnd initial_capital bars =
     sim_loop_rnd rnd bars [1..<length bars] (init_state initial_capital)"

text \<open>
  Line 146. \<open>bars.iloc[-1]\<close> is read only when a position is held, and raises
  \<open>IndexError\<close> on a frame without rows.
\<close>

definition final_value_of :: "frame list \<Rightarrow> sim_state \<Rightarrow> error + number" where
  "final_value_of bars s =
     (if in_position s then
        (case bars of
           [] \<Rightarrow> Inl IndexError
         | _ \<Rightarrow> Inr (num_add (cash s)
                  (NpFloat (fl_mul (to_fl (position s)) (close (last bars))))))
      else Inr (num_add (cash s) (PyNum 0)))"

text \<open>
  \<open>run_backtest\<close>. The argument \<open>fetched\<close> is what \<open>get_historical_data\<close> returned:
  \<open>None\<close> when the request failed, the bars otherwise. The function returns the pair
  \<open>(None, None)\<close> (here \<open>NoData\<close>) or \<open>(trades, final_value)\<close>.
\<close>

definition run_backtest :: "backtester \<Rightarrow> bar list option \<Rightarrow> real \<Rightarrow> error + outcome" where
  "run_backtest self fetched initial_capital =
     (case fetched of
        None \<Rightarrow> Inr NoData
      | Some raw \<Rightarrow>
          if length raw = 0 then Inr NoData
          else
            (let bars = dropna (add_indicators self raw);
                 s = simulate initial_capital bars
             in case final_value_of bars s of
                  Inl e \<Rightarrow> Inl e
                | Inr final_value \<Rightarrow>
                    (let total_return = num_sub final_value (PyNum initial_capital)
                     in case num_truediv total_return (PyNum initial_capital) of
                          Inl e \<Rightarrow> Inl e
                        | Inr q \<Rightarrow>
                            (let total_return_pct = num_mul q (PyNum 100)
                             in Inr (Completed (trades s) final_value)))))"

section \<open>Notions used in the statements and proofs\<close>

text \<open>One iteration of the loop, as a function of the pair of rows it reads.\<close>

definition step_pair :: "sim_state \<Rightarrow> frame \<times> frame \<Rightarrow> sim_state" where
  "step_pair s pc = bar_step (fst pc) (snd pc) s"

text \<open>The ledger alternates, starting with a BUY, and a position is open after a BUY.\<close>

definition ledger_ok :: "sim_state \<Rightarrow> bool" where
  "ledger_ok s =
     ((\<forall>i < length (trades s). tr_action (trades s ! i) = (if even i then BUY else SELL))
      \<and> in_position s = odd (length (trades s)))"

text \<open>Cash and position exclude each other.\<close>

definition exclusive :: "sim_state \<Rightarrow> bool" where
  "exclusive s =
     ((in_position s \<longrightarrow> cash s = PyNum 0)
      \<and> (\<not> in_position s \<longrightarrow> position s = PyNum 0 \<and> position_value s = PyNum 0))"

text \<open>
  While a position is held the last record is the BUY that opened it, and the quantity
  held is the cash spent divided by the entry price; cash is always finite.
\<close>

definition entry_ok :: "sim_state \<Rightarrow> bool" where
  "entry_ok s =
     ((\<exists>c. to_fl (cash s) = Fin c)
      \<and> (in_position s \<longrightarrow>
           trades s \<noteq> [] \<and> tr_action (last (trades s)) = BUY
           \<and> amount (last (trades s)) = position s
           \<and> (\<exists>c x. x \<noteq> 0 \<and> price (last (trades s)) = Fin x
                  \<and> to_fl (position_value s) = Fin c
                  \<and> to_fl (position s) = Fin (c / x))))"

text \<open>The keys \<open>profit\<close> and \<open>profit_pct\<close> are in a SELL record and in no BUY record.\<close>

definition profit_fields_ok :: "trade \<Rightarrow> bool" where
  "profit_fields_ok t =
     (case tr_action t of
        BUY \<Rightarrow> profit t = None \<and> profit_pct t = None
      | SELL \<Rightarrow> profit t \<noteq> None \<and> profit_pct t \<noteq> None)"

text \<open>
  While a position is held the last record is the BUY that opened it and holds the
  quantity bought and the cash spent.
\<close>

definition opened_ok :: "sim_state \<Rightarrow> bool" where
  "opened_ok s =
     (in_position s \<longrightarrow>
        trades s \<noteq> [] \<and> tr_action (last (trades s)) = BUY
        \<and> amount (last (trades s)) = position s
        \<and> tr_value (last (trades s)) = position_value s)"

section \<open>Example inputs\<close>

definition mk_bar :: "int \<Rightarrow> real \<Rightarrow> bar" where
  "mk_bar t c =
     \<lparr>timestamp = t, bar_open = Fin c, high = Fin c, low = Fin c, close = Fin c,
      volume = Fin 1\<rparr>"

definition feed_of :: "real list \<Rightarrow> bar list" where
  "feed_of cs = map2 mk_bar (map int [0..<length cs]) cs"

definition mk_frame :: "int \<Rightarrow> real \<Rightarrow> real \<Rightarrow> real \<Rightarrow> frame" where
  "mk_frame t c r m = add_frame (mk_bar t c) (Fin r, Fin m)"

text \<open>Fifteen rising closes: in the window ending at the last one nothing was lost.\<close>

definition up15 :: "fl list" where
  "up15 = map Fin [100, 101, 102, 103, 104, 105, 106, 107, 108, 109, 110, 111, 112, 113, 114]"

text \<open>
  Thirty bars: the close falls by 1 on each of the first 26 bars, then moves to
  20987, 20988, 11987 and 21988.
\<close>

definition demo_closes :: "real list" where
  "demo_closes =
     [20025, 20024, 20023, 20022, 20021, 20020, 20019, 20018, 20017, 20016,
      20015, 20014, 20013, 20012, 20011, 20010, 20009, 20008, 20007, 20006,
      20005, 20004, 20003, 20002, 20001, 20000, 20987, 20988, 11987, 21988]"

definition demo_feed :: "bar list" where
  "demo_feed = feed_of demo_closes"

definition feed27 :: "bar list" where
  "feed27 = take 27 demo_feed"

definition feed28 :: "bar list" where
  "feed28 = take 28 demo_feed"

text \<open>The rows of \<open>demo_feed\<close> that \<open>dropna\<close> keeps.\<close>

definition demo_rows :: "frame list" where
  "demo_rows =
     [mk_frame 26 20987 (987 / 10) (141 / 20),
      mk_frame 27 20988 (494 / 5) (395 / 28),
      mk_frame 28 11987 (247 / 25) (10369 / 700),
      mk_frame 29 21988 (10989 / 200) (1499 / 80)]"

text \<open>The record of the purchase at bar 27 of \<open>demo_feed\<close>, with 20988 to spend.\<close>

definition demo_buy :: trade where
  "demo_buy =
     \<lparr>tr_timestamp = 27, tr_action = BUY, price = Fin 20988, amount = NpFloat (Fin 1),
      tr_value = PyNum 20988, tr_rsi = Fin (494 / 5), tr_rsi_ma = Fin (395 / 28),
      delta_rsi = Fin (1 / 10), delta_price = Fin 1, profit = None, profit_pct = None\<rparr>"

text \<open>Thirty bars with the same close.\<close>

definition flat30 :: "bar list" where
  "flat30 = feed_of (replicate 30 5)"

text \<open>A row with the given close and indicator values.\<close>

definition mk_row :: "int \<Rightarrow> fl \<Rightarrow> fl \<Rightarrow> fl \<Rightarrow> frame" where
  "mk_row t c r m =
     add_frame \<lparr>timestamp = t, bar_open = c, high = c, low = c, close = c, volume = Fin 1\<rparr>
       (r, m)"

text \<open>
  Three rows for the float64 loop: 100 is spent at 2999.37 (rounded to float64), the
  position is sold at 2900.
\<close>

definition round_rows :: "frame list" where
  "round_rows =
     [mk_row 0 (Fin 2990) (Fin 50) (Fin 50),
      mk_row 1 (f64_round (299937 / 100)) (Fin 60) (Fin 50),
      mk_row 2 (Fin 2900) (Fin 40) (Fin 50)]"

definition round_long :: sim_state where
  "round_long = simulate_rnd f64_round 100 (take 2 round_rows)"

definition round_flat :: sim_state where
  "round_flat = simulate_rnd f64_round 100 round_rows"

text \<open>A feed that agrees with \<open>demo_feed\<close> on the first 28 bars and differs after them.\<close>

definition alt_feed :: "bar list" where
  "alt_feed = feed28 @ [mk_bar 28 30000]"

section \<open>Arithmetic and indicator facts\<close>


lemma fl_gt_sub_zero: "fl_gt (fl_sub a b) (Fin 0) = fl_gt a b"
  by (cases a; cases b) (simp_all add: fl_gt_def fl_sub_def)

lemma fl_lt_sub_zero: "fl_lt (fl_sub a b) (Fin 0) = fl_lt a b"
  by (cases a; cases b) (simp_all add: fl_sub_def)

lemma length_diff_from: "length (diff_from p xs) = length xs"
  by (induction xs arbitrary: p) simp_all

lemma length_diff: "length (diff xs) = length xs"
  by (cases xs) (simp_all add: length_diff_from)

lemma length_rolling_mean: "length (rolling_mean w xs) = length xs"
  by (simp add: rolling_mean_def)

lemma length_avg_gain: "length (avg_gain prices w) = length prices"
  by (simp add: avg_gain_def length_rolling_mean where_gt0_def length_diff)

lemma length_avg_loss: "length (avg_loss prices w) = length prices"
  by (simp add: avg_loss_def length_rolling_mean where_lt0_def length_diff)

lemma length_calculate_rsi: "length (calculate_rsi prices w) = length prices"
  by (simp add: calculate_rsi_def length_avg_gain length_avg_loss)

lemma calculate_rsi_nth:
  "i < length prices \<Longrightarrow>
   calculate_rsi prices w ! i = rsi_of_rs (fl_div (avg_gain prices w ! i) (avg_loss prices w ! i))"
  by (simp add: calculate_rsi_def length_avg_gain length_avg_loss)

lemma rsi_of_rs_pure_gain: "0 < g \<Longrightarrow> rsi_of_rs (fl_div (Fin g) (Fin 0)) = Fin 100"
  by (simp add: rsi_of_rs_def signed_inf_def fl_sub_def)

lemma rsi_of_rs_infinite: "rsi_of_rs PInf = Fin 100 \<and> rsi_of_rs NInf = Fin 100"
  by (simp add: rsi_of_rs_def signed_inf_def fl_sub_def)

text \<open>
  C3. The buy decision of the simulation (line 88: not in a position, and \<open>buy\<close> of
  \<open>logic.py\<close>) is true exactly when no position is held, the RSI is above its moving
  average and the price is above the previous price. Accordingly an iteration of the
  loop appends a BUY record exactly under that condition.
\<close>

theorem buy_decision_iff:
  "((\<not> is_invested \<and> buy rsi_prev rsi_now rsi_ma_now price_now price_prev) =
     (\<not> is_invested \<and> fl_gt rsi_now rsi_ma_now \<and> fl_gt price_now price_prev))
   \<and> ((\<exists>t. trades (bar_step prev cur s) = trades s @ [t] \<and> tr_action t = BUY) =
        (\<not> in_position s \<and> fl_gt (rsi cur) (rsi_ma cur) \<and> fl_gt (close cur) (close prev)))"
  by (auto simp: bar_step_def Let_def buy_def fl_gt_sub_zero)



text \<open>At entry price 2 the threshold is the float64 1.98 itself, and 1.98 is not below it.\<close>

lemma stop_loss_boundary:
  "f64_mul (Fin 2) (f64_round (99 / 100)) = f64_round (198 / 100)
   \<and> check_for_sell (Fin 60) (Fin 50) (f64_round (198 / 100)) (Fin 2) True = False"
  by code_simp

text \<open>
  C5. Where the average loss over the window is 0 and the average gain is positive,
  \<open>calculate_rsi\<close> yields the value 100: the division is numpy's, it returns an
  infinity and raises nothing.
\<close>

theorem rsi_zero_loss:
  assumes "i < length prices"
      and "avg_loss prices w ! i = Fin 0"
      and "avg_gain prices w ! i = Fin g"
      and "0 < g"
  shows "calculate_rsi prices w ! i = Fin 100"
proof -
  have "calculate_rsi prices w ! i = rsi_of_rs (fl_div (Fin g) (Fin 0))"
    using assms by (simp only: calculate_rsi_nth)
  then show ?thesis
    using \<open>0 < g\<close> by (simp only: rsi_of_rs_pure_gain)
qed

lemma up15_gain: "avg_gain up15 14 ! 14 = Fin 1"
  by code_simp
lemma up15_loss: "avg_loss up15 14 ! 14 = Fin 0"
  by code_simp

theorem rsi_zero_loss_witness:
  "14 < length up15 \<and> avg_loss up15 14 ! 14 = Fin 0 \<and> avg_gain up15 14 ! 14 = Fin 1
   \<and> (0::real) < 1 \<and> calculate_rsi up15 14 ! 14 = Fin 100"
proof -
  have len: "14 < length up15" by (simp add: up15_def)
  show ?thesis
    using rsi_zero_loss [OF len up15_loss up15_gain] len up15_loss up15_gain by simp
qed


section \<open>The loop\<close>


lemma sim_loop_append:
  "sim_loop bars (xs @ ys) s = sim_loop bars ys (sim_loop bars xs s)"
  by (induction xs arbitrary: s) simp_all

lemma sim_loop_foldl:
  "sim_loop bars idxs s = foldl step_pair s (map (\<lambda>i. (bars ! (i - 1), bars ! i)) idxs)"
  by (induction idxs arbitrary: s) (simp_all add: step_pair_def)

lemma loop_pairs_zip:
  "map (\<lambda>i. (bars ! (i - 1), bars ! i)) [1..<length bars] = zip bars (tl bars)"
proof (rule nth_equalityI)
  show "length (map (\<lambda>i. (bars ! (i - 1), bars ! i)) [1..<length bars]) = length (zip bars (tl bars))"
    by simp
next
  fix k
  assume "k < length (map (\<lambda>i. (bars ! (i - 1), bars ! i)) [1..<length bars])"
  then have k: "Suc k < length bars" by simp
  have "[1..<length bars] ! k = 1 + k"
    using k by (intro nth_upt) simp
  then show "map (\<lambda>i. (bars ! (i - 1), bars ! i)) [1..<length bars] ! k = zip bars (tl bars) ! k"
    using k by (simp add: nth_tl)
qed

lemma simulate_foldl:
  "simulate cap bars = foldl step_pair (init_state cap) (zip bars (tl bars))"
  by (simp only: simulate_def sim_loop_foldl loop_pairs_zip)

lemma sim_loop_cong:
  "(\<And>i. i \<in> set idxs \<Longrightarrow> xs ! i = ys ! i \<and> xs ! (i - 1) = ys ! (i - 1)) \<Longrightarrow>
   sim_loop xs idxs s = sim_loop ys idxs s"
  by (induction idxs arbitrary: s) simp_all

lemma simulate_snoc:
  assumes "bars \<noteq> []"
  shows "simulate cap (bars @ [cur]) = bar_step (last bars) cur (simulate cap bars)"
proof -
  have n: "1 \<le> length bars" using assms by (cases bars) simp_all
  then have idx: "[1..<length (bars @ [cur])] = [1..<length bars] @ [length bars]"
    by simp
  have same: "sim_loop (bars @ [cur]) [1..<length bars] (init_state cap)
              = sim_loop bars [1..<length bars] (init_state cap)"
    by (rule sim_loop_cong) (auto simp: nth_append)
  have lst: "(bars @ [cur]) ! (length bars - 1) = last bars"
    using assms n by (simp add: nth_append last_conv_nth)
  show ?thesis
    unfolding simulate_def idx sim_loop_append same
    using lst by simp
qed

lemma sim_loop_invariant:
  assumes "P s" and "\<And>p c t. P t \<Longrightarrow> P (bar_step p c t)"
  shows "P (sim_loop bars idxs s)"
  using assms(1)
proof (induction idxs arbitrary: s)
  case Nil
  then show ?case by simp
next
  case (Cons i idxs)
  then show ?case by (simp add: assms(2))
qed

lemma ledger_ok_init: "ledger_ok (init_state cap)"
  by (simp add: ledger_ok_def init_state_def)

lemma ledger_ok_step: "ledger_ok s \<Longrightarrow> ledger_ok (bar_step p c s)"
  by (auto simp: ledger_ok_def bar_step_def Let_def nth_append less_Suc_eq)

lemma demo_feed_rows: "dropna (add_indicators Backtester_init demo_feed) = demo_rows"
  by code_simp

lemma feed28_rows: "dropna (add_indicators Backtester_init feed28) = take 2 demo_rows"
  by code_simp

lemma feed27_rows: "dropna (add_indicators Backtester_init feed27) = take 1 demo_rows"
  by code_simp

lemma exclusive_init: "exclusive (init_state cap)"
  by (simp add: exclusive_def init_state_def)

lemma exclusive_step: "exclusive s \<Longrightarrow> exclusive (bar_step p c s)"
  by (simp add: exclusive_def bar_step_def Let_def)

lemma exclusive_loop: "exclusive (sim_loop bars idxs (init_state cap))"
  by (rule sim_loop_invariant [where P = exclusive]) (simp_all add: exclusive_init exclusive_step)

lemma ledger_ok_loop: "ledger_ok (sim_loop bars idxs (init_state cap))"
  by (rule sim_loop_invariant [where P = ledger_ok]) (simp_all add: ledger_ok_init ledger_ok_step)

lemma profit_fields_init: "list_all profit_fields_ok (trades (init_state cap))"
  by (simp add: init_state_def)

lemma profit_fields_step:
  "list_all profit_fields_ok (trades s) \<Longrightarrow> list_all profit_fields_ok (trades (bar_step p c s))"
  by (simp add: bar_step_def Let_def profit_fields_ok_def)

lemma profit_fields_loop:
  "list_all profit_fields_ok (trades (sim_loop bars idxs (init_state cap)))"
  by (rule sim_loop_invariant [where P = "\<lambda>s. list_all profit_fields_ok (trades s)"])
     (simp_all add: profit_fields_init profit_fields_step)

lemma entry_ok_init: "entry_ok (init_state cap)"
  by (simp add: entry_ok_def init_state_def)

lemma entry_ok_step:
  assumes "entry_ok s" and "close c = Fin x" and "x \<noteq> 0"
  shows "entry_ok (bar_step p c s)"
proof -
  obtain k where k: "to_fl (cash s) = Fin k"
    using assms(1) by (auto simp: entry_ok_def)
  show ?thesis
  proof (cases "in_position s")
    case False
    then show ?thesis
      using assms k by (simp add: entry_ok_def bar_step_def Let_def)
  next
    case True
    then obtain q where "to_fl (position s) = Fin q"
      using assms(1) by (auto simp: entry_ok_def)
    then show ?thesis
      using assms True k by (simp add: entry_ok_def bar_step_def Let_def)
  qed
qed

lemma foldl_step_invariant:
  assumes "P s" and "\<And>pc t. pc \<in> set xs \<Longrightarrow> P t \<Longrightarrow> P (step_pair t pc)"
  shows "P (foldl step_pair s xs)"
  using assms
proof (induction xs arbitrary: s)
  case Nil
  then show ?case by simp
next
  case (Cons a xs)
  then show ?case by simp
qed

lemma entry_ok_simulate:
  assumes "list_all (\<lambda>b. \<exists>x. close b = Fin x \<and> x \<noteq> 0) bars"
  shows "entry_ok (simulate cap bars)"
  unfolding simulate_foldl
proof (rule foldl_step_invariant [where P = entry_ok])
  show "entry_ok (init_state cap)" by (rule entry_ok_init)
next
  fix pc t
  assume pc: "pc \<in> set (zip bars (tl bars))" and t: "entry_ok t"
  from pc have "snd pc \<in> set (tl bars)"
    by (metis set_zip_rightD prod.collapse)
  then have "snd pc \<in> set bars"
    by (cases bars) simp_all
  then obtain x where "close (snd pc) = Fin x" "x \<noteq> 0"
    using assms by (auto simp: list_all_iff)
  then show "entry_ok (step_pair t pc)"
    unfolding step_pair_def using t by (rule entry_ok_step [rotated])
qed

lemma run_backtest_CompletedD:
  assumes "run_backtest self fetched cap = Inr (Completed ledger fv)"
  shows "\<exists>raw. fetched = Some raw \<and> raw \<noteq> []
           \<and> ledger = trades (simulate cap (dropna (add_indicators self raw)))"
  using assms
  by (auto simp: run_backtest_def Let_def split: option.splits if_splits sum.splits)

text \<open>
  C6. In the ledger of every completed run the records at even positions are BUYs and
  those at odd positions are SELLs, so the first record is a BUY and no two neighbours
  have the same action. One iteration of the loop leaves the ledger as it is or appends
  one record: a BUY only when no position is held, a SELL only when one is.
\<close>

theorem ledger_alternates:
  assumes "run_backtest self fetched cap = Inr (Completed ledger fv)"
  shows "(\<forall>i < length ledger. tr_action (ledger ! i) = (if even i then BUY else SELL))
         \<and> (\<forall>p c s. trades (bar_step p c s) = trades s
               \<or> (\<exists>t. trades (bar_step p c s) = trades s @ [t]
                     \<and> (tr_action t = BUY \<and> \<not> in_position s
                         \<or> tr_action t = SELL \<and> in_position s)))"
proof
  obtain raw where "ledger = trades (simulate cap (dropna (add_indicators self raw)))"
    using run_backtest_CompletedD [OF assms] by blast
  then have "ledger = trades (sim_loop (dropna (add_indicators self raw))
      [1..<length (dropna (add_indicators self raw))] (init_state cap))"
    by (simp add: simulate_def)
  moreover have "ledger_ok (sim_loop (dropna (add_indicators self raw))
      [1..<length (dropna (add_indicators self raw))] (init_state cap))"
    by (rule ledger_ok_loop)
  ultimately show "\<forall>i < length ledger. tr_action (ledger ! i) = (if even i then BUY else SELL)"
    by (simp add: ledger_ok_def)
next
  show "\<forall>p c s. trades (bar_step p c s) = trades s
               \<or> (\<exists>t. trades (bar_step p c s) = trades s @ [t]
                     \<and> (tr_action t = BUY \<and> \<not> in_position s
                         \<or> tr_action t = SELL \<and> in_position s))"
    by (simp add: bar_step_def Let_def)
qed

lemma demo_run:
  "run_backtest Backtester_init (Some demo_feed) 20988
     = Inr (Completed (trades (simulate 20988 demo_rows)) (NpFloat (Fin 11987)))"
  by code_simp

lemma demo_actions: "map tr_action (trades (simulate 20988 demo_rows)) = [BUY, SELL, BUY]"
  by code_simp

theorem ledger_alternates_witness:
  "run_backtest Backtester_init (Some demo_feed) 20988
     = Inr (Completed (trades (simulate 20988 demo_rows)) (NpFloat (Fin 11987)))
   \<and> map tr_action (trades (simulate 20988 demo_rows)) = [BUY, SELL, BUY]
   \<and> tr_action (trades (simulate 20988 demo_rows) ! 1) = SELL"
proof -
  have len: "1 < length (trades (simulate 20988 demo_rows))"
    using arg_cong [OF demo_actions, of length] by simp
  have "tr_action (trades (simulate 20988 demo_rows) ! 1) = (if even (1::nat) then BUY else SELL)"
    using ledger_alternates [OF demo_run] len by blast
  then show ?thesis
    using demo_run demo_actions by simp
qed

text \<open>
  C10. After any number of iterations of the loop (none included): while a position is
  held the cash is 0, and otherwise position and position value are 0; so cash and
  position are never both non-zero. Each iteration preserves this.
\<close>

theorem cash_position_exclusive:
  "(let s = sim_loop bars (take k [1..<length bars]) (init_state cap)
    in (in_position s \<longrightarrow> cash s = PyNum 0)
       \<and> (\<not> in_position s \<longrightarrow> position s = PyNum 0 \<and> position_value s = PyNum 0)
       \<and> (cash s = PyNum 0 \<or> position s = PyNum 0))
   \<and> (exclusive s \<longrightarrow> exclusive (bar_step p c s))"
proof -
  define t where "t = sim_loop bars (take k [1..<length bars]) (init_state cap)"
  have "exclusive t"
    unfolding t_def by (rule exclusive_loop)
  then have "(in_position t \<longrightarrow> cash t = PyNum 0)
       \<and> (\<not> in_position t \<longrightarrow> position t = PyNum 0 \<and> position_value t = PyNum 0)
       \<and> (cash t = PyNum 0 \<or> position t = PyNum 0)"
    by (auto simp: exclusive_def)
  then show ?thesis
    unfolding t_def Let_def using exclusive_step by blast
qed

lemma demo_state1: "in_position (sim_loop demo_rows (take 1 [1..<length demo_rows]) (init_state 20988))"
  by code_simp

theorem cash_position_exclusive_witness:
  "in_position (sim_loop demo_rows (take 1 [1..<length demo_rows]) (init_state 20988))
   \<and> cash (sim_loop demo_rows (take 1 [1..<length demo_rows]) (init_state 20988)) = PyNum 0"
  using cash_position_exclusive [of demo_rows 1 20988] demo_state1
  by (simp add: Let_def)

lemma profit_fields_simulate: "list_all profit_fields_ok (trades (simulate cap bars))"
  unfolding simulate_def by (rule profit_fields_loop)

text \<open>
  In exact arithmetic, and with finite non-zero closes, the cash spent at the purchase
  equals the quantity times the entry price, and the profit of the sale can be written
  with either.
\<close>

lemma sell_exact_cost:
  assumes bars: "bars \<noteq> []"
      and fin: "list_all (\<lambda>b. \<exists>x. close b = Fin x \<and> x \<noteq> 0) bars"
      and long: "in_position (simulate cap bars)"
      and sig: "sell (rsi (last bars)) (rsi cur) (rsi_ma cur) (close cur) (close (last bars))"
  shows "let s = simulate cap bars;
             s' = simulate cap (bars @ [cur]);
             quantity = to_fl (position s);
             entry_price = price (last (trades s));
             cost = fl_mul quantity entry_price;
             cash' = fl_mul quantity (close cur);
             profit' = fl_sub cash' cost
         in tr_action (last (trades s)) = BUY \<and> amount (last (trades s)) = position s
            \<and> cash s' = NpFloat cash' \<and> position s' = PyNum 0 \<and> \<not> in_position s'
            \<and> (\<exists>t. trades s' = trades s @ [t] \<and> tr_action t = SELL
                   \<and> profit t = Some profit'
                   \<and> profit_pct t = Some (fl_mul (fl_div profit' cost) (Fin 100)))
            \<and> list_all profit_fields_ok (trades s')"
proof -
  define s where "s = simulate cap bars"
  have ok: "entry_ok s"
    unfolding s_def using fin by (rule entry_ok_simulate)
  have inpos: "in_position s"
    using long by (simp add: s_def)
  from ok inpos obtain c x where x: "x \<noteq> 0"
    and pr: "price (last (trades s)) = Fin x"
    and pv: "to_fl (position_value s) = Fin c"
    and q: "to_fl (position s) = Fin (c / x)"
    and act: "tr_action (last (trades s)) = BUY"
    and am: "amount (last (trades s)) = position s"
    by (auto simp: entry_ok_def)
  have cost: "fl_mul (to_fl (position s)) (price (last (trades s))) = to_fl (position_value s)"
    using x by (simp add: pr pv q)
  have step: "simulate cap (bars @ [cur]) = bar_step (last bars) cur s"
    unfolding s_def using bars by (rule simulate_snoc)
  have pf: "list_all profit_fields_ok (trades (simulate cap (bars @ [cur])))"
    by (rule profit_fields_simulate)
  have branch: "bar_step (last bars) cur s =
     \<lparr>cash = NpFloat (fl_mul (to_fl (position s)) (close cur)), position = PyNum 0,
      position_value = PyNum 0, in_position = False,
      trades = trades s @
        [\<lparr>tr_timestamp = timestamp cur, tr_action = SELL, price = close cur,
          amount = position s,
          tr_value = NpFloat (fl_mul (to_fl (position s)) (close cur)),
          tr_rsi = rsi cur, tr_rsi_ma = rsi_ma cur,
          delta_rsi = fl_sub (rsi cur) (rsi (last bars)),
          delta_price = fl_sub (close cur) (close (last bars)),
          profit = Some (fl_sub (fl_mul (to_fl (position s)) (close cur))
                           (to_fl (position_value s))),
          profit_pct = Some (fl_mul (fl_div
                           (fl_sub (fl_mul (to_fl (position s)) (close cur))
                              (to_fl (position_value s)))
                           (to_fl (position_value s))) (Fin 100))\<rparr>]\<rparr>"
    using inpos sig by (simp add: bar_step_def Let_def)
  have "tr_action (last (trades s)) = BUY \<and> amount (last (trades s)) = position s
        \<and> cash (bar_step (last bars) cur s) = NpFloat (fl_mul (to_fl (position s)) (close cur))
        \<and> position (bar_step (last bars) cur s) = PyNum 0
        \<and> \<not> in_position (bar_step (last bars) cur s)
        \<and> (\<exists>t. trades (bar_step (last bars) cur s) = trades s @ [t] \<and> tr_action t = SELL
               \<and> profit t = Some (fl_sub (fl_mul (to_fl (position s)) (close cur))
                     (fl_mul (to_fl (position s)) (price (last (trades s)))))
               \<and> profit_pct t = Some (fl_mul (fl_div
                     (fl_sub (fl_mul (to_fl (position s)) (close cur))
                        (fl_mul (to_fl (position s)) (price (last (trades s)))))
                     (fl_mul (to_fl (position s)) (price (last (trades s))))) (Fin 100)))"
    unfolding cost branch using act am by simp
  then show ?thesis
    using pf unfolding Let_def step s_def [symmetric] by simp
qed

lemma apply_rnd_exact: "apply_rnd Fin a = a"
  by (cases a) simp_all

lemma bar_step_rnd_exact: "bar_step_rnd Fin p c s = bar_step p c s"
  by (simp add: bar_step_rnd_def bar_step_def Let_def apply_rnd_exact)

lemma sim_loop_rnd_exact: "sim_loop_rnd Fin bars idxs s = sim_loop bars idxs s"
  by (induction idxs arbitrary: s) (simp_all add: bar_step_rnd_exact)

lemma simulate_rnd_exact: "simulate_rnd Fin cap bars = simulate cap bars"
  by (simp add: simulate_rnd_def simulate_def sim_loop_rnd_exact)

lemma sim_loop_rnd_append:
  "sim_loop_rnd rnd bars (xs @ ys) s = sim_loop_rnd rnd bars ys (sim_loop_rnd rnd bars xs s)"
  by (induction xs arbitrary: s) simp_all

lemma sim_loop_rnd_cong:
  "(\<And>i. i \<in> set idxs \<Longrightarrow> xs ! i = ys ! i \<and> xs ! (i - 1) = ys ! (i - 1)) \<Longrightarrow>
   sim_loop_rnd rnd xs idxs s = sim_loop_rnd rnd ys idxs s"
  by (induction idxs arbitrary: s) simp_all

lemma simulate_rnd_snoc:
  assumes "bars \<noteq> []"
  shows "simulate_rnd rnd cap (bars @ [cur])
           = bar_step_rnd rnd (last bars) cur (simulate_rnd rnd cap bars)"
proof -
  have n: "1 \<le> length bars" using assms by (cases bars) simp_all
  then have idx: "[1..<length (bars @ [cur])] = [1..<length bars] @ [length bars]"
    by simp
  have same: "sim_loop_rnd rnd (bars @ [cur]) [1..<length bars] (init_state cap)
              = sim_loop_rnd rnd bars [1..<length bars] (init_state cap)"
    by (rule sim_loop_rnd_cong) (auto simp: nth_append)
  have lst: "(bars @ [cur]) ! (length bars - 1) = last bars"
    using assms n by (simp add: nth_append last_conv_nth)
  show ?thesis
    unfolding simulate_rnd_def idx sim_loop_rnd_append same
    using lst by simp
qed

lemma sim_loop_rnd_invariant:
  assumes "P s" and "\<And>p c t. P t \<Longrightarrow> P (bar_step_rnd rnd p c t)"
  shows "P (sim_loop_rnd rnd bars idxs s)"
  using assms(1)
proof (induction idxs arbitrary: s)
  case Nil
  then show ?case by simp
next
  case (Cons i idxs)
  then show ?case by (simp add: assms(2))
qed

lemma opened_ok_simulate: "opened_ok (simulate_rnd rnd cap bars)"
  unfolding simulate_rnd_def
proof (rule sim_loop_rnd_invariant [where P = opened_ok])
  show "opened_ok (init_state cap)"
    by (simp add: opened_ok_def init_state_def)
next
  fix p c t
  assume "opened_ok t"
  then show "opened_ok (bar_step_rnd rnd p c t)"
    by (simp add: opened_ok_def bar_step_rnd_def Let_def)
qed

lemma profit_fields_simulate_rnd:
  "list_all profit_fields_ok (trades (simulate_rnd rnd cap bars))"
  unfolding simulate_rnd_def
proof (rule sim_loop_rnd_invariant [where P = "\<lambda>s. list_all profit_fields_ok (trades s)"])
  show "list_all profit_fields_ok (trades (init_state cap))"
    by (simp add: init_state_def)
next
  fix p c and t :: sim_state
  assume "list_all profit_fields_ok (trades t)"
  then show "list_all profit_fields_ok (trades (bar_step_rnd rnd p c t))"
    by (simp add: bar_step_rnd_def Let_def profit_fields_ok_def)
qed

text \<open>
  C7, amended. When the sell signal fires while a position is held, the iteration sets
  cash to quantity times the current price, sets the quantity to 0, leaves no position,
  and appends exactly one SELL record. Its profit is the new cash minus the cash spent
  at the purchase (\<open>position_value\<close>, the \<open>value\<close> of the BUY record that opened the
  position), and its profit percentage is that profit over the cash spent, times 100.
  This holds whatever the rounding. In every ledger the profit keys are on the SELL
  records and on no BUY record.
\<close>

theorem sell_liquidates_position:
  assumes bars: "bars \<noteq> []"
      and long: "in_position (simulate_rnd rnd cap bars)"
      and sig: "sell (rsi (last bars)) (rsi cur) (rsi_ma cur) (close cur) (close (last bars))"
  shows "let s = simulate_rnd rnd cap bars;
             s' = simulate_rnd rnd cap (bars @ [cur]);
             opened = last (trades s);
             quantity = to_fl (position s);
             spent = to_fl (position_value s);
             cash' = apply_rnd rnd (fl_mul quantity (close cur));
             profit' = apply_rnd rnd (fl_sub cash' spent)
         in tr_action opened = BUY \<and> amount opened = position s
            \<and> tr_value opened = position_value s
            \<and> cash s' = NpFloat cash' \<and> position s' = PyNum 0 \<and> \<not> in_position s'
            \<and> (\<exists>t. trades s' = trades s @ [t] \<and> tr_action t = SELL
                   \<and> profit t = Some profit'
                   \<and> profit_pct t = Some (apply_rnd rnd
                         (fl_mul (apply_rnd rnd (fl_div profit' spent)) (Fin 100))))
            \<and> list_all profit_fields_ok (trades s')"
proof -
  define s where "s = simulate_rnd rnd cap bars"
  have inpos: "in_position s"
    using long by (simp add: s_def)
  have "opened_ok s"
    unfolding s_def by (rule opened_ok_simulate)
  then have opened: "tr_action (last (trades s)) = BUY" "amount (last (trades s)) = position s"
      "tr_value (last (trades s)) = position_value s"
    using inpos by (simp_all add: opened_ok_def)
  have step: "simulate_rnd rnd cap (bars @ [cur]) = bar_step_rnd rnd (last bars) cur s"
    unfolding s_def using bars by (rule simulate_rnd_snoc)
  have pf: "list_all profit_fields_ok (trades (simulate_rnd rnd cap (bars @ [cur])))"
    by (rule profit_fields_simulate_rnd)
  have "cash (bar_step_rnd rnd (last bars) cur s)
          = NpFloat (apply_rnd rnd (fl_mul (to_fl (position s)) (close cur)))
        \<and> position (bar_step_rnd rnd (last bars) cur s) = PyNum 0
        \<and> \<not> in_position (bar_step_rnd rnd (last bars) cur s)
        \<and> (\<exists>t. trades (bar_step_rnd rnd (last bars) cur s) = trades s @ [t]
               \<and> tr_action t = SELL
               \<and> profit t = Some (apply_rnd rnd (fl_sub
                     (apply_rnd rnd (fl_mul (to_fl (position s)) (close cur)))
                     (to_fl (position_value s))))
               \<and> profit_pct t = Some (apply_rnd rnd (fl_mul (apply_rnd rnd (fl_div
                     (apply_rnd rnd (fl_sub
                        (apply_rnd rnd (fl_mul (to_fl (position s)) (close cur)))
                        (to_fl (position_value s))))
                     (to_fl (position_value s)))) (Fin 100))))"
    using inpos sig by (simp add: bar_step_rnd_def Let_def)
  then show ?thesis
    using pf opened unfolding Let_def step s_def [symmetric] by simp
qed

lemma round_long_state:
  "in_position round_long
   \<and> tr_action (last (trades round_long)) = BUY
   \<and> price (last (trades round_long)) = f64_round (299937 / 100)
   \<and> to_fl (position_value round_long) = Fin 100
   \<and> to_fl (position round_long) = Fin (1201212155184721 / 36028797018963968)"
  by code_simp

lemma round_sell_signal:
  "sell (rsi (last (take 2 round_rows))) (rsi (round_rows ! 2)) (rsi_ma (round_rows ! 2))
     (close (round_rows ! 2)) (close (last (take 2 round_rows)))"
  by code_simp

lemma round_flat_state:
  "cash round_flat = NpFloat (Fin (6803740722725959 / 70368744177664))
   \<and> profit (last (trades round_flat)) = Some (Fin (- (233133695040441 / 70368744177664)))"
  by code_simp

lemma round_cost:
  "f64_mul (to_fl (position round_long)) (price (last (trades round_long)))
     = Fin (7036874417766399 / 70368744177664)"
  by code_simp

lemma round_sell_values:
  "apply_rnd f64_round (fl_mul (to_fl (position round_long)) (close (round_rows ! 2)))
     = Fin (6803740722725959 / 70368744177664)
   \<and> apply_rnd f64_round (fl_sub (Fin (6803740722725959 / 70368744177664))
        (to_fl (position_value round_long)))
     = Fin (- (233133695040441 / 70368744177664))"
  by code_simp

theorem sell_liquidates_position_witness:
  "take 2 round_rows \<noteq> []
   \<and> in_position round_long
   \<and> sell (rsi (last (take 2 round_rows))) (rsi (round_rows ! 2)) (rsi_ma (round_rows ! 2))
       (close (round_rows ! 2)) (close (last (take 2 round_rows)))
   \<and> tr_value (last (trades round_long)) = position_value round_long
   \<and> cash (simulate_rnd f64_round 100 (take 2 round_rows @ [round_rows ! 2]))
       = NpFloat (Fin (6803740722725959 / 70368744177664))
   \<and> (\<exists>t. trades (simulate_rnd f64_round 100 (take 2 round_rows @ [round_rows ! 2]))
            = trades round_long @ [t]
          \<and> tr_action t = SELL
          \<and> profit t = Some (Fin (- (233133695040441 / 70368744177664))))"
proof -
  have ne: "take 2 round_rows \<noteq> []"
    by (simp add: round_rows_def)
  have long: "in_position (simulate_rnd f64_round 100 (take 2 round_rows))"
    using round_long_state by (simp add: round_long_def)
  show ?thesis
    using sell_liquidates_position [OF ne long round_sell_signal] ne round_sell_signal
      round_long_state round_sell_values
    unfolding Let_def round_long_def [symmetric]
    by auto
qed

text \<open>
  C7, as stated, fails in float64. 100 is spent at 2999.37 and the position is sold at
  2900: the quantity times the entry price is 99.99999999999999, not the 100 spent; the
  recorded profit is -3.313029069437917, while cash minus quantity times entry price is
  -3.3130290694379028.
\<close>

theorem profit_is_not_cash_minus_cost:
  "in_position round_long
   \<and> price (last (trades round_long)) = f64_round (299937 / 100)
   \<and> to_fl (position_value round_long) = Fin 100
   \<and> f64_mul (to_fl (position round_long)) (price (last (trades round_long)))
       = Fin (7036874417766399 / 70368744177664)
   \<and> profit (last (trades round_flat)) = Some (Fin (- (233133695040441 / 70368744177664)))
   \<and> f64_sub (to_fl (cash round_flat))
        (f64_mul (to_fl (position round_long)) (price (last (trades round_long))))
       = Fin (- (29141711880055 / 8796093022208))
   \<and> profit (last (trades round_flat))
       \<noteq> Some (f64_sub (to_fl (cash round_flat))
            (f64_mul (to_fl (position round_long)) (price (last (trades round_long)))))"
proof -
  have "f64_sub (to_fl (cash round_flat))
        (f64_mul (to_fl (position round_long)) (price (last (trades round_long))))
       = Fin (- (29141711880055 / 8796093022208))"
    unfolding round_cost by code_simp
  then show ?thesis
    using round_long_state round_flat_state round_cost by simp
qed

text \<open>
  C2, amended. The transition rule is applied once to each pair of neighbouring rows that
  survive \<open>dropna\<close>, in order: the current rows are all surviving rows but the first, the
  previous rows all but the last. The first surviving row is only ever a previous row.
\<close>

theorem rule_once_per_later_bar:
  assumes "run_backtest self (Some raw) cap = Inr (Completed ledger fv)"
  shows "let rows = dropna (add_indicators self raw)
         in ledger = trades (foldl step_pair (init_state cap) (zip rows (tl rows)))
            \<and> map snd (zip rows (tl rows)) = tl rows
            \<and> map fst (zip rows (tl rows)) = butlast rows"
proof -
  have "ledger = trades (simulate cap (dropna (add_indicators self raw)))"
    using run_backtest_CompletedD [OF assms] by auto
  moreover have "map snd (zip rows (tl rows)) = tl rows" for rows :: "frame list"
    by (simp add: map_snd_zip_take)
  moreover have "map fst (zip rows (tl rows)) = butlast rows" for rows :: "frame list"
    by (cases rows) (simp_all add: map_fst_zip_take butlast_conv_take min_def)
  ultimately show ?thesis
    by (simp add: Let_def simulate_foldl)
qed

theorem rule_once_per_later_bar_witness:
  "run_backtest Backtester_init (Some demo_feed) 20988
     = Inr (Completed (trades (simulate 20988 demo_rows)) (NpFloat (Fin 11987)))
   \<and> trades (simulate 20988 demo_rows)
       = trades (foldl step_pair (init_state 20988) (zip demo_rows (tl demo_rows)))
   \<and> map snd (zip demo_rows (tl demo_rows)) = tl demo_rows"
  using rule_once_per_later_bar [OF demo_run] demo_run
  by (simp add: Let_def demo_feed_rows)

lemma feed27_run:
  "run_backtest Backtester_init (Some feed27) 100 = Inr (Completed [] (PyNum 100))"
  by code_simp

text \<open>
  C2, as stated, fails on \<open>feed27\<close>: bar 26 is the first bar with both indicators, no
  position is held, \<open>buy\<close> holds for bar 26 against bar 25, and the ledger is empty.
\<close>

theorem first_defined_bar_not_evaluated:
  "dropna (add_indicators Backtester_init feed27) = [mk_frame 26 20987 (987 / 10) (141 / 20)]
   \<and> \<not> in_position (init_state 100)
   \<and> buy (rsi (add_indicators Backtester_init feed27 ! 25)) (Fin (987 / 10)) (Fin (141 / 20))
        (Fin 20987) (close (add_indicators Backtester_init feed27 ! 25))
   \<and> run_backtest Backtester_init (Some feed27) 100 = Inr (Completed [] (PyNum 100))"
  by code_simp

section \<open>Warm-up and short feeds\<close>

lemma rolling_mean_nth:
  "i < length xs \<Longrightarrow>
   rolling_mean w xs ! i =
     (if Suc i < w then NaN else window_mean (take w (drop (Suc i - w) xs)))"
  by (simp add: rolling_mean_def)

lemma window_mean_missing: "x \<in> set ys \<Longrightarrow> \<not> is_finite x \<Longrightarrow> window_mean ys = NaN"
  by (auto simp: window_mean_def list_all_iff)

lemma rsi_of_rs_nan: "rsi_of_rs NaN = NaN"
  by (simp add: rsi_of_rs_def fl_sub_def)

lemma rsi_early_nan:
  assumes "i < length prices" and "Suc i < w"
  shows "calculate_rsi prices w ! i = NaN"
proof -
  have "avg_gain prices w ! i = NaN"
    using assms by (simp add: avg_gain_def rolling_mean_nth where_gt0_def length_diff)
  then show ?thesis
    using assms by (simp add: calculate_rsi_nth rsi_of_rs_nan)
qed

lemma rolling_mean_early_nan:
  assumes i: "i < length xs" and early: "Suc (Suc i) < rw + mw"
      and nan: "\<And>j. j < length xs \<Longrightarrow> Suc j < rw \<Longrightarrow> xs ! j = NaN"
  shows "rolling_mean mw xs ! i = NaN"
proof (cases "Suc i < mw")
  case True
  then show ?thesis using i by (simp add: rolling_mean_nth)
next
  case False
  show ?thesis
  proof (cases "mw = 0")
    case True
    then show ?thesis using i by (simp add: rolling_mean_nth window_mean_def)
  next
    case mw: False
    define k where "k = Suc i - mw"
    have k: "k < length xs" "Suc k < rw"
      using False mw i early by (auto simp: k_def)
    then have xk: "xs ! k = NaN"
      by (rule nan)
    have "take mw (drop k xs) ! 0 = xs ! k"
      using k mw by simp
    moreover have "0 < length (take mw (drop k xs))"
      using k mw by simp
    ultimately have "xs ! k \<in> set (take mw (drop k xs))"
      by (metis nth_mem)
    then have "window_mean (take mw (drop k xs)) = NaN"
      using xk by (auto intro: window_mean_missing)
    then show ?thesis
      using False i by (simp add: rolling_mean_nth k_def)
  qed
qed

lemma rsi_add_frame: "rsi (add_frame b ind) = fst ind"
  by (simp add: add_frame_def bar.extend_def)

lemma rsi_ma_add_frame: "rsi_ma (add_frame b ind) = snd ind"
  by (simp add: add_frame_def bar.extend_def)

lemma close_add_frame: "close (add_frame b ind) = close b"
  by (simp add: add_frame_def bar.extend_def)

lemma length_add_indicators: "length (add_indicators self bars) = length bars"
  by (simp add: add_indicators_def Let_def length_calculate_rsi length_rolling_mean)

lemma add_indicators_nth:
  assumes "i < length bars"
  shows "add_indicators self bars ! i =
           add_frame (bars ! i)
             (calculate_rsi (map close bars) (rsi_window self) ! i,
              rolling_mean (ma_window self)
                (calculate_rsi (map close bars) (rsi_window self)) ! i)"
  using assms
  by (simp add: add_indicators_def Let_def length_calculate_rsi length_rolling_mean)

lemma early_row_has_na:
  assumes "i < length bars" and "Suc (Suc i) < rsi_window self + ma_window self"
  shows "row_has_na (add_indicators self bars ! i)"
proof -
  have "rolling_mean (ma_window self) (calculate_rsi (map close bars) (rsi_window self)) ! i = NaN"
  proof (rule rolling_mean_early_nan)
    show "i < length (calculate_rsi (map close bars) (rsi_window self))"
      using assms by (simp add: length_calculate_rsi)
    show "Suc (Suc i) < rsi_window self + ma_window self" by (rule assms(2))
  next
    fix j
    assume "j < length (calculate_rsi (map close bars) (rsi_window self))"
      and "Suc j < rsi_window self"
    then show "calculate_rsi (map close bars) (rsi_window self) ! j = NaN"
      by (simp add: length_calculate_rsi rsi_early_nan)
  qed
  then show ?thesis
    using assms by (simp add: add_indicators_nth row_has_na_def rsi_ma_add_frame isna_def)
qed

lemma filter_at_most_one:
  assumes "\<And>i. Suc i < length xs \<Longrightarrow> \<not> P (xs ! i)"
  shows "length (filter P xs) \<le> 1"
proof (cases xs rule: rev_cases)
  case Nil
  then show ?thesis by simp
next
  case (snoc ys y)
  have "\<not> P z" if "z \<in> set ys" for z
  proof -
    from that obtain i where i: "i < length ys" "ys ! i = z"
      by (auto simp: in_set_conv_nth)
    then have "\<not> P (xs ! i)"
      using snoc by (intro assms) simp
    then show ?thesis
      using i snoc by (simp add: nth_append)
  qed
  then have "filter P ys = []"
    by (simp add: filter_empty_conv)
  then show ?thesis
    using snoc by simp
qed

lemma short_feed_rows:
  assumes "length bars < rsi_window self + ma_window self"
  shows "length (dropna (add_indicators self bars)) \<le> 1"
  unfolding dropna_def
proof (rule filter_at_most_one)
  fix i
  assume "Suc i < length (add_indicators self bars)"
  then have "i < length bars" "Suc (Suc i) < rsi_window self + ma_window self"
    using assms by (simp_all add: length_add_indicators)
  then show "\<not> \<not> row_has_na (add_indicators self bars ! i)"
    by (simp add: early_row_has_na)
qed

lemma simulate_short: "length rows \<le> 1 \<Longrightarrow> simulate cap rows = init_state cap"
  by (simp add: simulate_def)

lemma run_backtest_no_iteration:
  assumes "raw \<noteq> []" and "cap \<noteq> 0"
      and "length (dropna (add_indicators self raw)) \<le> 1"
  shows "run_backtest self (Some raw) cap = Inr (Completed [] (PyNum cap))"
  using assms
  by (simp add: run_backtest_def Let_def simulate_short final_value_of_def init_state_def)

lemma simulate_empty_flat: "\<not> in_position (simulate cap [])"
  by (simp add: simulate_def init_state_def)

lemma final_value_defined: "\<exists>fv. final_value_of rows (simulate cap rows) = Inr fv"
  by (cases rows) (simp_all add: final_value_of_def simulate_empty_flat)

lemma truediv_defined: "cap \<noteq> 0 \<Longrightarrow> \<exists>q. num_truediv (num_sub fv (PyNum cap)) (PyNum cap) = Inr q"
  by (cases fv) simp_all

lemma run_backtest_completes:
  assumes "raw \<noteq> []" and "cap \<noteq> 0"
  shows "\<exists>fv. run_backtest self (Some raw) cap
           = Inr (Completed (trades (simulate cap (dropna (add_indicators self raw)))) fv)"
proof -
  obtain fv where fv: "final_value_of (dropna (add_indicators self raw))
      (simulate cap (dropna (add_indicators self raw))) = Inr fv"
    using final_value_defined by blast
  obtain q where "num_truediv (num_sub fv (PyNum cap)) (PyNum cap) = Inr q"
    using truediv_defined [OF assms(2)] by blast
  then show ?thesis
    using assms(1) fv by (simp add: run_backtest_def Let_def)
qed

lemma feed28_run:
  "run_backtest Backtester_init (Some feed28) 20988
     = Inr (Completed [demo_buy] (NpFloat (Fin 20988)))"
  by code_simp

lemma feed_lengths: "length feed27 = 27 \<and> length feed28 = 28"
  by code_simp

text \<open>
  C1, as stated, fails. On \<open>feed28\<close> two rows survive \<open>dropna\<close>, fewer than twice the
  window, and the run completes with a purchase; on \<open>feed27\<close>, 27 bars, the run completes
  as well and returns an empty ledger.
\<close>

theorem insufficient_data_not_reported:
  "length (dropna (add_indicators Backtester_init feed28)) = 2
   \<and> (2::nat) < 2 * rsi_window Backtester_init
   \<and> run_backtest Backtester_init (Some feed28) 20988
       = Inr (Completed [demo_buy] (NpFloat (Fin 20988)))
   \<and> length feed27 = 27
   \<and> run_backtest Backtester_init (Some feed27) 100 = Inr (Completed [] (PyNum 100))"
proof -
  have "length (dropna (add_indicators Backtester_init feed28)) = 2"
    by (simp add: feed28_rows demo_rows_def)
  moreover have "(2::nat) < 2 * rsi_window Backtester_init"
    by (simp add: Backtester_init_def)
  ultimately show ?thesis
    using feed28_run feed27_run feed_lengths by simp
qed

text \<open>
  C1, amended. \<open>run_backtest\<close> returns \<open>(None, None)\<close> exactly for a missing or empty
  feed, checked before the indicators are computed; the rows that survive \<open>dropna\<close>
  are never counted. Every non-empty feed, with a non-zero initial capital, yields a
  ledger and a final value. With both windows 14, a feed of at most 27 bars leaves at
  most one row, the loop body does not run, and the result is the empty ledger and the
  initial capital; 28 bars can yield a trade.
\<close>

theorem no_data_only_for_empty_feed:
  "run_backtest self None cap = Inr NoData
   \<and> run_backtest self (Some []) cap = Inr NoData
   \<and> (raw \<noteq> [] \<and> cap \<noteq> 0 \<longrightarrow>
        (\<exists>fv. run_backtest self (Some raw) cap
           = Inr (Completed (trades (simulate cap (dropna (add_indicators self raw)))) fv)))
   \<and> (raw \<noteq> [] \<and> cap \<noteq> 0 \<and> length raw \<le> 27 \<longrightarrow>
        run_backtest Backtester_init (Some raw) cap = Inr (Completed [] (PyNum cap)))
   \<and> length feed28 = 28
   \<and> run_backtest Backtester_init (Some feed28) 20988
       = Inr (Completed [demo_buy] (NpFloat (Fin 20988)))"
proof -
  have short: "run_backtest Backtester_init (Some raw) cap = Inr (Completed [] (PyNum cap))"
    if "raw \<noteq> []" "cap \<noteq> 0" "length raw \<le> 27"
  proof -
    have "length raw < rsi_window Backtester_init + ma_window Backtester_init"
      using that(3) by (simp add: Backtester_init_def)
    then have "length (dropna (add_indicators Backtester_init raw)) \<le> 1"
      by (rule short_feed_rows)
    with that(1,2) show ?thesis
      by (rule run_backtest_no_iteration)
  qed
  have "run_backtest self None cap = Inr NoData"
    and "run_backtest self (Some []) cap = Inr NoData"
    by (simp_all add: run_backtest_def)
  then show ?thesis
    using short run_backtest_completes [of raw cap self] feed28_run feed_lengths
    by blast
qed

theorem no_data_only_for_empty_feed_witness:
  "feed27 \<noteq> [] \<and> (100::real) \<noteq> 0 \<and> length feed27 \<le> 27
   \<and> run_backtest Backtester_init (Some feed27) 100 = Inr (Completed [] (PyNum 100))"
proof -
  have len: "length feed27 = 27"
    using feed_lengths by simp
  then have ne: "feed27 \<noteq> []"
    by auto
  show ?thesis
    using no_data_only_for_empty_feed [of Backtester_init 100 feed27] len ne
    by simp
qed

lemma flat_diff_from:
  assumes "\<And>x. x \<in> set xs \<Longrightarrow> x = c"
  shows "\<forall>d \<in> set (diff_from c xs). \<not> fl_gt d (Fin 0) \<and> \<not> fl_lt d (Fin 0)"
  using assms
proof (induction xs)
  case Nil
  then show ?case by simp
next
  case (Cons x xs)
  have x: "x = c" using Cons.prems by simp
  have self: "\<not> fl_lt c c" by (cases c) simp_all
  have rest: "\<forall>d \<in> set (diff_from c xs). \<not> fl_gt d (Fin 0) \<and> \<not> fl_lt d (Fin 0)"
    using Cons by simp
  have "fl_gt (fl_sub c c) (Fin 0) = fl_lt c c"
    unfolding fl_gt_sub_zero by (simp add: fl_gt_def)
  moreover have "fl_lt (fl_sub c c) (Fin 0) = fl_lt c c"
    by (rule fl_lt_sub_zero)
  ultimately show ?case
    using x self rest by simp
qed

lemma flat_diff:
  assumes "\<And>x. x \<in> set xs \<Longrightarrow> x = c"
  shows "\<forall>d \<in> set (diff xs). \<not> fl_gt d (Fin 0) \<and> \<not> fl_lt d (Fin 0)"
proof (cases xs)
  case Nil
  then show ?thesis by simp
next
  case (Cons x ys)
  then have "x = c" and "\<And>y. y \<in> set ys \<Longrightarrow> y = c"
    using assms by simp_all
  then show ?thesis
    using Cons flat_diff_from [of ys c] by (simp add: fl_gt_def)
qed

lemma flat_gains:
  assumes "\<And>x. x \<in> set xs \<Longrightarrow> x = c"
  shows "\<forall>g \<in> set (where_gt0 (diff xs)). g = Fin 0"
    and "\<forall>l \<in> set (map fl_neg (where_lt0 (diff xs))). l = Fin 0"
  using flat_diff [OF assms] by (auto simp: where_gt0_def where_lt0_def)

lemma window_mean_zeros:
  assumes "\<forall>y \<in> set ys. y = Fin 0"
  shows "window_mean ys = NaN \<or> window_mean ys = Fin 0"
proof -
  have "sum_list (map fin_val ys) = 0"
    using assms by (induction ys) simp_all
  then show ?thesis
    by (simp add: window_mean_def)
qed

lemma rolling_mean_zeros:
  assumes "\<forall>x \<in> set xs. x = Fin 0" and "i < length xs"
  shows "rolling_mean w xs ! i = NaN \<or> rolling_mean w xs ! i = Fin 0"
proof -
  have "\<forall>y \<in> set (take w (drop (Suc i - w) xs)). y = Fin 0"
    using assms(1) by (meson in_set_dropD in_set_takeD)
  then have "window_mean (take w (drop (Suc i - w) xs)) = NaN
             \<or> window_mean (take w (drop (Suc i - w) xs)) = Fin 0"
    by (rule window_mean_zeros)
  then show ?thesis
    using assms(2) by (simp add: rolling_mean_nth)
qed

lemma flat_rsi_nan:
  assumes "\<And>x. x \<in> set prices \<Longrightarrow> x = c" and "i < length prices"
  shows "calculate_rsi prices w ! i = NaN"
proof -
  have g: "avg_gain prices w ! i = NaN \<or> avg_gain prices w ! i = Fin 0"
    unfolding avg_gain_def
    using flat_gains(1) [OF assms(1)] assms(2)
    by (intro rolling_mean_zeros) (simp_all add: where_gt0_def length_diff)
  have l: "avg_loss prices w ! i = NaN \<or> avg_loss prices w ! i = Fin 0"
    unfolding avg_loss_def
    using flat_gains(2) [OF assms(1)] assms(2)
    by (intro rolling_mean_zeros) (simp_all add: where_lt0_def length_diff)
  have "fl_div (avg_gain prices w ! i) (avg_loss prices w ! i) = NaN"
    using g l by auto
  then show ?thesis
    using assms(2) by (simp add: calculate_rsi_nth rsi_of_rs_nan)
qed

lemma flat_rows_dropped:
  assumes "list_all (\<lambda>b. close b = c) raw"
  shows "dropna (add_indicators self raw) = []"
proof -
  have prices: "x = c" if "x \<in> set (map close raw)" for x
    using that assms by (auto simp: list_all_iff)
  have "row_has_na r" if "r \<in> set (add_indicators self raw)" for r
  proof -
    from that obtain i where i: "i < length raw" "r = add_indicators self raw ! i"
      by (auto simp: in_set_conv_nth length_add_indicators)
    have "calculate_rsi (map close raw) (rsi_window self) ! i = NaN"
      using prices i(1) by (intro flat_rsi_nan) simp_all
    then show ?thesis
      using i by (simp add: add_indicators_nth row_has_na_def rsi_add_frame isna_def)
  qed
  then show ?thesis
    by (simp add: dropna_def filter_empty_conv)
qed

text \<open>
  C8. For every feed whose close is the same on every bar, whatever its length, the run
  returns an empty ledger and the initial capital as final value: every RSI is 0/0, no
  row survives \<open>dropna\<close>, and the loop body does not run. The feed has bars (one without
  bars does not pass line 51) and the initial capital is not 0, as line 148 divides by
  it.
\<close>

theorem flat_feed_no_trades:
  assumes "raw \<noteq> []" and "initial_capital \<noteq> 0"
      and "list_all (\<lambda>b. close b = c) raw"
  shows "run_backtest self (Some raw) initial_capital
           = Inr (Completed [] (PyNum initial_capital))"
proof -
  have "dropna (add_indicators self raw) = []"
    using assms(3) by (rule flat_rows_dropped)
  then have "length (dropna (add_indicators self raw)) \<le> 1"
    by simp
  with assms(1,2) show ?thesis
    by (rule run_backtest_no_iteration)
qed

lemma flat30_closes: "list_all (\<lambda>b. close b = Fin 5) flat30"
  by code_simp

lemma flat30_length: "length flat30 = 30"
  by code_simp

theorem flat_feed_no_trades_witness:
  "length flat30 = 30 \<and> flat30 \<noteq> [] \<and> (100::real) \<noteq> 0
   \<and> list_all (\<lambda>b. close b = Fin 5) flat30
   \<and> run_backtest Backtester_init (Some flat30) 100 = Inr (Completed [] (PyNum 100))"
proof -
  have ne: "flat30 \<noteq> []"
    using flat30_length by auto
  have cap: "(100::real) \<noteq> 0"
    by simp
  show ?thesis
    using flat_feed_no_trades [OF ne cap flat30_closes, of Backtester_init] ne flat30_closes
      flat30_length
    by simp
qed

lemma flat30_run: "run_backtest Backtester_init (Some flat30) 100 = Inr (Completed [] (PyNum 100))"
  by code_simp

section \<open>No look-ahead\<close>

lemma diff_from_take: "diff_from p (take n xs) = take n (diff_from p xs)"
proof (induction xs arbitrary: p n)
  case Nil
  then show ?case by simp
next
  case (Cons x xs)
  then show ?case by (cases n) simp_all
qed

lemma diff_take: "diff (take n xs) = take n (diff xs)"
proof (cases xs)
  case Nil
  then show ?thesis by simp
next
  case (Cons x ys)
  then show ?thesis by (cases n) (simp_all add: diff_from_take)
qed

lemma rolling_mean_take: "rolling_mean w (take n xs) = take n (rolling_mean w xs)"
proof (rule nth_equalityI)
  show "length (rolling_mean w (take n xs)) = length (take n (rolling_mean w xs))"
    by (simp add: length_rolling_mean)
next
  fix i
  assume "i < length (rolling_mean w (take n xs))"
  then have i: "i < n" "i < length xs"
    by (simp_all add: length_rolling_mean)
  have "take w (drop (Suc i - w) (take n xs)) = take w (drop (Suc i - w) xs)"
    if "\<not> Suc i < w"
  proof -
    have "w \<le> n - (Suc i - w)"
      using that i by simp
    then show ?thesis
      by (simp add: drop_take min_def)
  qed
  then show "rolling_mean w (take n xs) ! i = take n (rolling_mean w xs) ! i"
    using i by (simp add: rolling_mean_nth length_rolling_mean)
qed

lemma avg_gain_take: "avg_gain (take n prices) w = take n (avg_gain prices w)"
proof -
  have "where_gt0 (take n (diff prices)) = take n (where_gt0 (diff prices))"
    by (simp add: where_gt0_def take_map)
  then show ?thesis
    by (simp only: avg_gain_def diff_take rolling_mean_take)
qed

lemma avg_loss_take: "avg_loss (take n prices) w = take n (avg_loss prices w)"
proof -
  have "map fl_neg (where_lt0 (take n (diff prices)))
        = take n (map fl_neg (where_lt0 (diff prices)))"
    by (simp add: where_lt0_def take_map)
  then show ?thesis
    by (simp only: avg_loss_def diff_take rolling_mean_take)
qed

lemma calculate_rsi_take:
  "calculate_rsi (take n prices) w = take n (calculate_rsi prices w)"
  unfolding calculate_rsi_def Let_def avg_gain_take avg_loss_take
  by (simp add: take_map take_zip)

lemma add_indicators_take:
  "add_indicators self (take n bars) = take n (add_indicators self bars)"
proof -
  have "map close (take n bars) = take n (map close bars)"
    by (simp add: take_map)
  then have "add_indicators self (take n bars) =
      map2 add_frame (take n bars)
        (zip (take n (calculate_rsi (map close bars) (rsi_window self)))
           (take n (rolling_mean (ma_window self)
              (calculate_rsi (map close bars) (rsi_window self)))))"
    by (simp only: add_indicators_def Let_def calculate_rsi_take rolling_mean_take)
  then show ?thesis
    by (simp add: add_indicators_def Let_def take_map take_zip)
qed

lemma filter_take_prefix:
  "filter P (take n xs) = take (length (filter P (take n xs))) (filter P xs)"
proof -
  have "filter P xs = filter P (take n xs) @ filter P (drop n xs)"
    by (metis append_take_drop_id filter_append)
  then show ?thesis
    by simp
qed

lemma dropna_take_prefix:
  "dropna (take n rows) = take (length (dropna (take n rows))) (dropna rows)"
  unfolding dropna_def by (rule filter_take_prefix)

lemma take_loop_indices: "j < m \<Longrightarrow> take j [1..<m] = [1..<Suc j]"
  by (simp add: take_upt)

text \<open>
  C9. Let two feeds agree on their first \<open>n\<close> bars. Then the indicator values of those
  bars are the same in both runs; the rows among them that survive \<open>dropna\<close> are the
  first \<open>k\<close> rows of either run, and are the rows of the run on the feed cut after \<open>n\<close>
  bars; and after each of the iterations of the loop that read only those rows the two
  runs are in the same state, ledger included. So the decision taken at a bar and the
  record written there do not depend on later bars.
\<close>

theorem no_look_ahead:
  assumes agree: "take n A = take n B"
  shows "take n (add_indicators self A) = take n (add_indicators self B)
         \<and> (let rowsA = dropna (add_indicators self A);
                 rowsB = dropna (add_indicators self B);
                 k = length (dropna (take n (add_indicators self A)))
             in take k rowsA = take k rowsB
                \<and> take k rowsA = dropna (add_indicators self (take n A))
                \<and> (\<forall>j < k. sim_loop rowsA (take j [1..<length rowsA]) (init_state cap)
                             = sim_loop rowsB (take j [1..<length rowsB]) (init_state cap)))"
proof -
  define rowsA where "rowsA = dropna (add_indicators self A)"
  define rowsB where "rowsB = dropna (add_indicators self B)"
  define k where "k = length (dropna (take n (add_indicators self A)))"
  have ind: "take n (add_indicators self A) = take n (add_indicators self B)"
    using agree by (metis add_indicators_take)
  have preA: "dropna (take n (add_indicators self A)) = take k rowsA"
    unfolding k_def rowsA_def by (rule dropna_take_prefix)
  have "dropna (take n (add_indicators self B)) = take k rowsB"
    unfolding k_def rowsB_def ind by (rule dropna_take_prefix)
  then have rows: "take k rowsA = take k rowsB"
    using preA ind by simp
  have trunc: "take k rowsA = dropna (add_indicators self (take n A))"
    using preA by (simp add: add_indicators_take)
  have kA: "k \<le> length rowsA"
    using arg_cong [OF preA, of length] by (simp add: k_def)
  have kB: "k \<le> length rowsB"
    using arg_cong [OF preA, of length] rows
    by (metis k_def length_take min.absorb_iff2 min.commute)
  have states: "sim_loop rowsA (take j [1..<length rowsA]) (init_state cap)
              = sim_loop rowsB (take j [1..<length rowsB]) (init_state cap)"
    if j: "j < k" for j
  proof -
    have idxA: "take j [1..<length rowsA] = [1..<Suc j]"
      using j kA by (intro take_loop_indices) simp
    have idxB: "take j [1..<length rowsB] = [1..<Suc j]"
      using j kB by (intro take_loop_indices) simp
    have same: "rowsA ! i = rowsB ! i" if "i < k" for i
      using that arg_cong [OF rows, of "\<lambda>xs. xs ! i"] by simp
    have "sim_loop rowsA [1..<Suc j] (init_state cap) = sim_loop rowsB [1..<Suc j] (init_state cap)"
    proof (rule sim_loop_cong)
      fix i
      assume "i \<in> set [1..<Suc j]"
      then have "i < k" "i - 1 < k"
        using j by auto
      then show "rowsA ! i = rowsB ! i \<and> rowsA ! (i - 1) = rowsB ! (i - 1)"
        using same by simp
    qed
    then show ?thesis
      by (simp only: idxA idxB)
  qed
  show ?thesis
    using ind rows trunc states
    unfolding Let_def rowsA_def [symmetric] rowsB_def [symmetric] k_def [symmetric]
    by blast
qed

lemma alt_feed_agrees: "take 28 demo_feed = take 28 alt_feed"
  by code_simp

lemma alt_feed_differs: "demo_feed \<noteq> alt_feed"
  by code_simp

lemma demo_prefix_rows: "length (dropna (take 28 (add_indicators Backtester_init demo_feed))) = 2"
proof -
  have "take 28 (add_indicators Backtester_init demo_feed) = add_indicators Backtester_init feed28"
    by (simp only: add_indicators_take feed28_def)
  then show ?thesis
    by (simp add: feed28_rows demo_rows_def)
qed

lemma demo_first_step:
  "trades (sim_loop demo_rows (take 1 [1..<length demo_rows]) (init_state 20988)) = [demo_buy]"
  by code_simp

theorem no_look_ahead_witness:
  "take 28 demo_feed = take 28 alt_feed \<and> demo_feed \<noteq> alt_feed
   \<and> sim_loop (dropna (add_indicators Backtester_init demo_feed))
        (take 1 [1..<length (dropna (add_indicators Backtester_init demo_feed))])
        (init_state 20988)
     = sim_loop (dropna (add_indicators Backtester_init alt_feed))
        (take 1 [1..<length (dropna (add_indicators Backtester_init alt_feed))])
        (init_state 20988)
   \<and> trades (sim_loop (dropna (add_indicators Backtester_init demo_feed))
        (take 1 [1..<length (dropna (add_indicators Backtester_init demo_feed))])
        (init_state 20988)) = [demo_buy]"
proof -
  have "\<forall>j < 2. sim_loop (dropna (add_indicators Backtester_init demo_feed))
        (take j [1..<length (dropna (add_indicators Backtester_init demo_feed))])
        (init_state 20988)
     = sim_loop (dropna (add_indicators Backtester_init alt_feed))
        (take j [1..<length (dropna (add_indicators Backtester_init alt_feed))])
        (init_state 20988)"
    using no_look_ahead [OF alt_feed_agrees, of Backtester_init 20988]
    unfolding Let_def demo_prefix_rows by blast
  then have "sim_loop (dropna (add_indicators Backtester_init demo_feed))
        (take 1 [1..<length (dropna (add_indicators Backtester_init demo_feed))])
        (init_state 20988)
     = sim_loop (dropna (add_indicators Backtester_init alt_feed))
        (take 1 [1..<length (dropna (add_indicators Backtester_init alt_feed))])
        (init_state 20988)"
    by simp
  moreover have "trades (sim_loop (dropna (add_indicators Backtester_init demo_feed))
        (take 1 [1..<length (dropna (add_indicators Backtester_init demo_feed))])
        (init_state 20988)) = [demo_buy]"
    unfolding demo_feed_rows by (rule demo_first_step)
  ultimately show ?thesis
    using alt_feed_agrees alt_feed_differs by blast
qed

end
